theory Spec2Isabelle
  imports Main
begin

section \<open>The Pub/Sub publisher samples (pubsub/cloud-client/publisher.py)\<close>

text \<open>
  The file is a command-line script of eight sample functions. Each of them builds a
  client of the vendor library \<open>google.cloud.pubsub_v1\<close>, calls its methods and prints.
  All batching, sending and future resolution happens inside that library, which is not
  part of the script; the model takes the library as a parameter (a record of its
  methods) and follows the script's own control flow: the loops over \<open>range(1, 10)\<close>,
  the lists of futures, the endless sleep loop, and the argument parser with its
  \<open>if\<close>/\<open>elif\<close> dispatch.
\<close>

subsection \<open>Errors, the outside world and effects\<close>

text \<open>
  An exception ends the script. \<open>SystemExit\<close> is what \<open>argparse\<close> raises after a usage
  error (status 2), \<open>AttributeError\<close> is a read of a namespace attribute that was never
  set, and \<open>Raised\<close> is any exception coming out of a library call.
\<close>

datatype error = SystemExit nat | AttributeError | Raised string

text \<open>
  The script is started by \<open>#!/usr/bin/env python\<close> and is written for both lines of the
  language (\<open>u'...'\<close> literals, \<open>.format\<close>, \<open>print(...)\<close> of one argument). Where the two
  differ, the model takes the interpreter as an argument.
\<close>

datatype interpreter = Python2 | Python3

text \<open>
  The world is what the script prints, line by line, and the state of everything outside
  the script (the library, the service), which the script never inspects.
\<close>

record 's world =
  stdout :: "string list"
  outside :: 's

type_synonym ('a, 's) io = "'s world \<Rightarrow> error + ('a \<times> 's world)"

definition return :: "'a \<Rightarrow> ('a, 's) io" where
  "return x = (\<lambda>w. Inr (x, w))"

definition raise :: "error \<Rightarrow> ('a, 's) io" where
  "raise e = (\<lambda>w. Inl e)"

definition bind :: "('a, 's) io \<Rightarrow> ('a \<Rightarrow> ('b, 's) io) \<Rightarrow> ('b, 's) io" where
  "bind m f = (\<lambda>w. case m w of Inl e \<Rightarrow> Inl e | Inr (x, w') \<Rightarrow> f x w')"

definition print :: "string \<Rightarrow> (unit, 's) io" where
  "print s = (\<lambda>w. Inr ((), w\<lparr>stdout := stdout w @ [s]\<rparr>))"

text \<open>\<open>for x in xs: body(x)\<close>: the body runs on each element in turn; an exception stops it.\<close>

primrec for_each :: "'a list \<Rightarrow> ('a \<Rightarrow> (unit, 's) io) \<Rightarrow> (unit, 's) io" where
  "for_each [] body = return ()"
| "for_each (x # xs) body = bind (body x) (\<lambda>_. for_each xs body)"

text \<open>
  A loop whose body appends one value to a list (\<open>futures.append(...)\<close>): the list comes
  out in the order of the iterations.
\<close>

primrec collect :: "'a list \<Rightarrow> ('a \<Rightarrow> ('b, 's) io) \<Rightarrow> ('b list, 's) io" where
  "collect [] body = return []"
| "collect (x # xs) body =
     bind (body x) (\<lambda>y. bind (collect xs body) (\<lambda>ys. return (y # ys)))"

subsection \<open>The vendor library, as a parameter\<close>

record batch_settings =
  max_bytes :: int
  max_latency :: int

text \<open>
  \<open>'p\<close> is the library's publisher client and \<open>'f\<close> its future. Every call may raise.
  \<open>sdk_publish\<close> takes the topic path, the data and the keyword attributes.
  \<open>sdk_exception\<close> gives the exception a future ended with, if any. \<open>time_sleep\<close> is
  \<open>time.sleep\<close> of the standard library.
\<close>

record ('s, 'p, 'f) pubsub_v1 =
  sdk_PublisherClient :: "batch_settings option \<Rightarrow> ('p, 's) io"
  sdk_project_path :: "'p \<Rightarrow> string \<Rightarrow> string"
  sdk_topic_path :: "'p \<Rightarrow> string \<Rightarrow> string \<Rightarrow> string"
  sdk_list_topics :: "'p \<Rightarrow> string \<Rightarrow> (string list, 's) io"
  sdk_create_topic :: "'p \<Rightarrow> string \<Rightarrow> (string, 's) io"
  sdk_delete_topic :: "'p \<Rightarrow> string \<Rightarrow> (unit, 's) io"
  sdk_publish :: "'p \<Rightarrow> string \<Rightarrow> string \<Rightarrow> (string \<times> string) list \<Rightarrow> ('f, 's) io"
  sdk_result :: "'f \<Rightarrow> (string, 's) io"
  sdk_exception :: "'f \<Rightarrow> (string option, 's) io"
  sdk_add_done_callback :: "'f \<Rightarrow> ('f \<Rightarrow> (unit, 's) io) \<Rightarrow> (unit, 's) io"
  time_sleep :: "nat \<Rightarrow> (unit, 's) io"

subsection \<open>Formatting\<close>

definition digit_char :: "nat \<Rightarrow> char" where
  "digit_char d = char_of (48 + d)"

text \<open>\<open>'{}'.format(n)\<close> for a natural number: its decimal digits.\<close>

function format_nat :: "nat \<Rightarrow> string" where
  "format_nat n =
     (if n < 10 then [digit_char n] else format_nat (n div 10) @ [digit_char (n mod 10)])"
  by pat_completeness auto
termination
  by (relation "measure id") auto

text \<open>\<open>u'Message number {}'.format(n).encode('utf-8')\<close>: the text is ASCII, one byte a character.\<close>

definition message_data :: "nat \<Rightarrow> string" where
  "message_data n = ''Message number '' @ format_nat n"

text \<open>
  \<open>'{}'.format(data)\<close> of a bytestring. In Python 2 a bytestring is a \<open>str\<close> and is
  inserted as it is. In Python 3 its \<open>repr\<close> is inserted: for the printable ASCII text
  without quotes or backslashes that the script builds, the text between \<open>b'\<close> and \<open>'\<close>.
\<close>

definition format_bytes :: "interpreter \<Rightarrow> string \<Rightarrow> string" where
  "format_bytes py d =
     (case py of Python2 \<Rightarrow> d | Python3 \<Rightarrow> ''b'' @ [CHR 0x27] @ d @ [CHR 0x27])"

subsection \<open>The sample functions\<close>

definition list_topics :: "('s, 'p, 'f) pubsub_v1 \<Rightarrow> string \<Rightarrow> (unit, 's) io" where
  "list_topics sdk project_id =
     bind (sdk_PublisherClient sdk None) (\<lambda>publisher.
     bind (sdk_list_topics sdk publisher (sdk_project_path sdk publisher project_id)) (\<lambda>topics.
     for_each topics (\<lambda>topic. print topic)))"

definition create_topic :: "('s, 'p, 'f) pubsub_v1 \<Rightarrow> string \<Rightarrow> string \<Rightarrow> (unit, 's) io" where
  "create_topic sdk project_id topic_name =
     bind (sdk_PublisherClient sdk None) (\<lambda>publisher.
     bind (sdk_create_topic sdk publisher (sdk_topic_path sdk publisher project_id topic_name))
       (\<lambda>topic. print (''Topic created: '' @ topic)))"

definition delete_topic :: "('s, 'p, 'f) pubsub_v1 \<Rightarrow> string \<Rightarrow> string \<Rightarrow> (unit, 's) io" where
  "delete_topic sdk project_id topic_name =
     bind (sdk_PublisherClient sdk None) (\<lambda>publisher.
     bind (sdk_delete_topic sdk publisher (sdk_topic_path sdk publisher project_id topic_name))
       (\<lambda>_. print (''Topic deleted: '' @ sdk_topic_path sdk publisher project_id topic_name)))"

definition publish_messages ::
  "interpreter \<Rightarrow> ('s, 'p, 'f) pubsub_v1 \<Rightarrow> string \<Rightarrow> string \<Rightarrow> (unit, 's) io" where
  "publish_messages py sdk project_id topic_name =
     bind (sdk_PublisherClient sdk None) (\<lambda>publisher.
     bind (for_each [1..<10] (\<lambda>n.
       bind (sdk_publish sdk publisher (sdk_topic_path sdk publisher project_id topic_name)
               (message_data n) []) (\<lambda>future.
       bind (sdk_result sdk future) (\<lambda>message_id.
       print (''Published '' @ format_bytes py (message_data n) @ '' of message ID ''
                @ message_id @ ''.''))))) (\<lambda>_.
     print ''Published messages.''))"

definition publish_messages_with_custom_attributes ::
  "('s, 'p, 'f) pubsub_v1 \<Rightarrow> string \<Rightarrow> string \<Rightarrow> (unit, 's) io" where
  "publish_messages_with_custom_attributes sdk project_id topic_name =
     bind (sdk_PublisherClient sdk None) (\<lambda>publisher.
     bind (for_each [1..<10] (\<lambda>n.
       bind (sdk_publish sdk publisher (sdk_topic_path sdk publisher project_id topic_name)
               (message_data n) [(''origin'', ''python-sample''), (''username'', ''gcp'')])
         (\<lambda>_. return ()))) (\<lambda>_.
     print ''Published messages with custom attributes.''))"

definition publish_messages_with_futures ::
  "('s, 'p, 'f) pubsub_v1 \<Rightarrow> string \<Rightarrow> string \<Rightarrow> (unit, 's) io" where
  "publish_messages_with_futures sdk project_id topic_name =
     bind (sdk_PublisherClient sdk None) (\<lambda>publisher.
     bind (collect [1..<10] (\<lambda>n.
       sdk_publish sdk publisher (sdk_topic_path sdk publisher project_id topic_name)
         (message_data n) [])) (\<lambda>futures.
     bind (print ''Published message IDs:'') (\<lambda>_.
     for_each futures (\<lambda>future. bind (sdk_result sdk future) (\<lambda>message_id. print message_id)))))"

text \<open>\<open>'{}'.format(x)\<close> of what \<open>exception()\<close> returns: the exception's text, or \<open>None\<close>.\<close>

definition format_exception :: "string option \<Rightarrow> string" where
  "format_exception exc = (case exc of None \<Rightarrow> ''None'' | Some e \<Rightarrow> e)"

text \<open>
  The done-callback of the error-handler sample. An exception object is true in a
  condition, so the first branch runs exactly when the future holds one; that branch
  asks the future for its exception a second time to print it.
\<close>

definition callback :: "('s, 'p, 'f) pubsub_v1 \<Rightarrow> 'f \<Rightarrow> (unit, 's) io" where
  "callback sdk message_future =
     bind (sdk_exception sdk message_future) (\<lambda>exc.
       case exc of
         Some _ \<Rightarrow>
           bind (sdk_exception sdk message_future) (\<lambda>exc'.
           print (format_exception exc' @ '' needs handling.''))
       | None \<Rightarrow> bind (sdk_result sdk message_future) (\<lambda>message_id. print message_id))"

text \<open>
  \<open>while True: time.sleep(60)\<close>. Nothing in the loop leaves it; only an exception out of
  \<open>time.sleep\<close> ends it. A run that goes on forever has the value \<open>None\<close>.
\<close>

partial_function (option) sleep_forever ::
  "(nat \<Rightarrow> (unit, 's) io) \<Rightarrow> 's world \<Rightarrow> (error + unit \<times> 's world) option" where
  "sleep_forever slp w =
     (case slp 60 w of Inl e \<Rightarrow> Some (Inl e) | Inr (u, w') \<Rightarrow> sleep_forever slp w')"

text \<open>The part of the error-handler sample before its last loop.\<close>

definition publish_with_callbacks ::
  "('s, 'p, 'f) pubsub_v1 \<Rightarrow> string \<Rightarrow> string \<Rightarrow> (unit, 's) io" where
  "publish_with_callbacks sdk project_id topic_name =
     bind (sdk_PublisherClient sdk None) (\<lambda>publisher.
     bind (for_each [1..<10] (\<lambda>n.
       bind (sdk_publish sdk publisher (sdk_topic_path sdk publisher project_id topic_name)
               (message_data n) []) (\<lambda>message_future.
       sdk_add_done_callback sdk message_future (callback sdk)))) (\<lambda>_.
     print ''Published message IDs:''))"

definition publish_messages_with_error_handler ::
  "('s, 'p, 'f) pubsub_v1 \<Rightarrow> string \<Rightarrow> string \<Rightarrow> 's world \<Rightarrow> (error + unit \<times> 's world) option" where
  "publish_messages_with_error_handler sdk project_id topic_name w =
     (case publish_with_callbacks sdk project_id topic_name w of
        Inl e \<Rightarrow> Some (Inl e)
      | Inr (u, w') \<Rightarrow> sleep_forever (time_sleep sdk) w')"

definition publish_messages_with_batch_settings ::
  "('s, 'p, 'f) pubsub_v1 \<Rightarrow> string \<Rightarrow> string \<Rightarrow> (unit, 's) io" where
  "publish_messages_with_batch_settings sdk project_id topic_name =
     bind (sdk_PublisherClient sdk (Some \<lparr>max_bytes = 1024, max_latency = 1\<rparr>)) (\<lambda>publisher.
     bind (for_each [1..<10] (\<lambda>n.
       bind (sdk_publish sdk publisher (sdk_topic_path sdk publisher project_id topic_name)
               (message_data n) []) (\<lambda>_. return ()))) (\<lambda>_.
     print ''Published messages.''))"

subsection \<open>The command line\<close>

text \<open>
  What \<open>parser.parse_args()\<close> returns: \<open>project_id\<close>, the \<open>dest\<close> of the subparsers
  (\<open>command\<close>, \<open>None\<close> when no subcommand was given) and \<open>topic_name\<close>, an attribute
  that only the subparsers with that argument set.
\<close>

record namespace =
  ns_project_id :: string
  ns_command :: "string option"
  ns_topic_name :: "string option"

text \<open>
  \<open>argparse\<close> takes an argument for a positional one when it is empty or does not start
  with the prefix character \<open>-\<close>. What it does with the others (\<open>-h\<close>, abbreviations,
  negative numbers, unknown options) is left to a parameter of \<open>parse_args\<close>.
\<close>

definition option_like :: "string \<Rightarrow> bool" where
  "option_like a = (case a of [] \<Rightarrow> False | c # _ \<Rightarrow> c = CHR ''-'')"

definition subcommands_with_topic :: "string list" where
  "subcommands_with_topic =
     [''create'', ''delete'', ''publish'', ''publish-with-custom-attributes'',
      ''publish-with-futures'', ''publish-with-error-handler'',
      ''publish-with-batch-settings'']"

text \<open>
  The parser built in the script, on positional arguments only. \<open>argparse\<close> belongs to
  the standard library of the interpreter, not to the script, and the two lines of the
  language run the same parser differently at one point: \<open>add_subparsers(dest='command')\<close>
  is given no \<open>required=True\<close>, so in Python 3 (from 3.3) the subcommand may be absent
  and \<open>command\<close> is then \<open>None\<close>, while in Python 2.7 the subparsers are a positional
  argument like any other and an absent subcommand is the usage error
  \<open>too few arguments\<close>. Everywhere else they agree: \<open>project_id\<close> is required, \<open>list\<close>
  takes nothing more, the seven other subcommands exactly one \<open>topic_name\<close>. Every usage
  error exits with status 2.
\<close>

fun parse_positionals :: "interpreter \<Rightarrow> string list \<Rightarrow> error + namespace" where
  "parse_positionals py [] = Inl (SystemExit 2)"
| "parse_positionals py [p] =
     (case py of
        Python2 \<Rightarrow> Inl (SystemExit 2)
      | Python3 \<Rightarrow> Inr \<lparr>ns_project_id = p, ns_command = None, ns_topic_name = None\<rparr>)"
| "parse_positionals py (p # c # rest) =
     (if c = ''list'' then
        (if rest = [] then Inr \<lparr>ns_project_id = p, ns_command = Some c, ns_topic_name = None\<rparr>
         else Inl (SystemExit 2))
      else if c \<in> set subcommands_with_topic then
        (case rest of
           [t] \<Rightarrow> Inr \<lparr>ns_project_id = p, ns_command = Some c, ns_topic_name = Some t\<rparr>
         | _ \<Rightarrow> Inl (SystemExit 2))
      else Inl (SystemExit 2))"

definition parse_args ::
  "interpreter \<Rightarrow> (string list \<Rightarrow> error + namespace) \<Rightarrow> string list \<Rightarrow> error + namespace" where
  "parse_args py with_options argv =
     (if list_ex option_like argv then with_options argv else parse_positionals py argv)"

text \<open>Reading \<open>args.topic_name\<close> raises when the attribute was never set.\<close>

definition with_topic_name :: "namespace \<Rightarrow> (string \<Rightarrow> 's world \<Rightarrow> error + 'a) \<Rightarrow> 's world \<Rightarrow> error + 'a" where
  "with_topic_name args f w =
     (case ns_topic_name args of None \<Rightarrow> Inl AttributeError | Some t \<Rightarrow> f t w)"

text \<open>The \<open>if\<close>/\<open>elif\<close> chain at the end of the script. It has no \<open>else\<close>.\<close>

definition dispatch ::
  "interpreter \<Rightarrow> ('s, 'p, 'f) pubsub_v1 \<Rightarrow> namespace \<Rightarrow> 's world
     \<Rightarrow> (error + unit \<times> 's world) option" where
  "dispatch py sdk args w =
     (if ns_command args = Some ''list'' then
        Some (list_topics sdk (ns_project_id args) w)
      else if ns_command args = Some ''create'' then
        Some (with_topic_name args (create_topic sdk (ns_project_id args)) w)
      else if ns_command args = Some ''delete'' then
        Some (with_topic_name args (delete_topic sdk (ns_project_id args)) w)
      else if ns_command args = Some ''publish'' then
        Some (with_topic_name args (publish_messages py sdk (ns_project_id args)) w)
      else if ns_command args = Some ''publish-with-custom-attributes'' then
        Some (with_topic_name args
                (publish_messages_with_custom_attributes sdk (ns_project_id args)) w)
      else if ns_command args = Some ''publish-with-futures'' then
        Some (with_topic_name args (publish_messages_with_futures sdk (ns_project_id args)) w)
      else if ns_command args = Some ''publish-with-error-handler'' then
        (case ns_topic_name args of
           None \<Rightarrow> Some (Inl AttributeError)
         | Some t \<Rightarrow> publish_messages_with_error_handler sdk (ns_project_id args) t w)
      else if ns_command args = Some ''publish-with-batch-settings'' then
        Some (with_topic_name args
                (publish_messages_with_batch_settings sdk (ns_project_id args)) w)
      else Some (Inr ((), w)))"

text \<open>The script run by an interpreter on the arguments after the program name.\<close>

definition main ::
  "interpreter \<Rightarrow> (string list \<Rightarrow> error + namespace) \<Rightarrow> ('s, 'p, 'f) pubsub_v1 \<Rightarrow> string list
     \<Rightarrow> 's world \<Rightarrow> (error + unit \<times> 's world) option" where
  "main py with_options sdk argv w =
     (case parse_args py with_options argv of
        Inl e \<Rightarrow> Some (Inl e)
      | Inr args \<Rightarrow> dispatch py sdk args w)"

subsection \<open>Two libraries to run the script on\<close>

text \<open>
  A library in which every call succeeds at once and counts itself in the outside state,
  and one in which every call raises. Futures and clients are plain numbers.
\<close>

definition tick :: "'a \<Rightarrow> ('a, nat) io" where
  "tick x = (\<lambda>w. Inr (x, w\<lparr>outside := Suc (outside w)\<rparr>))"

definition counting_sdk :: "(nat, nat, nat) pubsub_v1" where
  "counting_sdk =
     \<lparr>sdk_PublisherClient = (\<lambda>_. tick 0),
      sdk_project_path = (\<lambda>_ p. ''projects/'' @ p),
      sdk_topic_path = (\<lambda>_ p t. ''projects/'' @ p @ ''/topics/'' @ t),
      sdk_list_topics = (\<lambda>_ _. tick []),
      sdk_create_topic = (\<lambda>_ path. tick path),
      sdk_delete_topic = (\<lambda>_ _. tick ()),
      sdk_publish = (\<lambda>_ _ _ _. (\<lambda>w. Inr (outside w, w\<lparr>outside := Suc (outside w)\<rparr>))),
      sdk_result = (\<lambda>f. tick (format_nat f)),
      sdk_exception = (\<lambda>_. tick None),
      sdk_add_done_callback = (\<lambda>_ _. tick ()),
      time_sleep = (\<lambda>_. tick ())\<rparr>"

definition failing_sdk :: "(unit, unit, unit) pubsub_v1" where
  "failing_sdk =
     \<lparr>sdk_PublisherClient = (\<lambda>_. raise (Raised ''unavailable'')),
      sdk_project_path = (\<lambda>_ p. ''projects/'' @ p),
      sdk_topic_path = (\<lambda>_ p t. ''projects/'' @ p @ ''/topics/'' @ t),
      sdk_list_topics = (\<lambda>_ _. raise (Raised ''unavailable'')),
      sdk_create_topic = (\<lambda>_ _. raise (Raised ''unavailable'')),
      sdk_delete_topic = (\<lambda>_ _. raise (Raised ''unavailable'')),
      sdk_publish = (\<lambda>_ _ _ _. raise (Raised ''unavailable'')),
      sdk_result = (\<lambda>_. raise (Raised ''unavailable'')),
      sdk_exception = (\<lambda>_. raise (Raised ''unavailable'')),
      sdk_add_done_callback = (\<lambda>_ _. raise (Raised ''unavailable'')),
      time_sleep = (\<lambda>_. raise (Raised ''unavailable''))\<rparr>"

text \<open>An \<open>argparse\<close> for which every argument starting with \<open>-\<close> is a usage error.\<close>

definition reject_options :: "string list \<Rightarrow> error + namespace" where
  "reject_options argv = Inl (SystemExit 2)"

section \<open>Properties\<close>

subsection \<open>The endless loop of the error-handler sample\<close>

text \<open>Whatever \<open>sleep_forever\<close> returns is an exception out of \<open>time.sleep\<close>.\<close>

lemma sleep_forever_raises:
  "sleep_forever slp w = Some r \<Longrightarrow> isl r"
proof (erule sleep_forever.raw_induct [rotated, where P = "\<lambda>slp w r. isl r"])
  fix rec :: "(nat \<Rightarrow> ('b, 'a) io) \<Rightarrow> 'a world \<Rightarrow> (error + 'b \<times> 'a world) option"
    and slp w r
  assume ih: "\<And>s v y. rec s v = Some y \<Longrightarrow> isl y"
    and step: "(case slp 60 w of Inl e \<Rightarrow> Some (Inl e) | Inr (u, w') \<Rightarrow> rec slp w') = Some r"
  show "isl r"
  proof (cases "slp 60 w")
    case (Inl e)
    with step show ?thesis by auto
  next
    case (Inr p)
    with step have "rec slp (snd p) = Some r" by (simp split: prod.splits)
    then show ?thesis by (rule ih)
  qed
qed

text \<open>If the loop ends at all, some call of \<open>time.sleep(60)\<close> raised.\<close>

lemma sleep_forever_needs_exception:
  "sleep_forever slp w = Some r \<Longrightarrow> \<exists>w'. isl (slp 60 w')"
proof (erule sleep_forever.raw_induct [rotated, where P = "\<lambda>slp w r. \<exists>w'. isl (slp 60 w')"])
  fix rec :: "(nat \<Rightarrow> ('b, 'a) io) \<Rightarrow> 'a world \<Rightarrow> (error + 'b \<times> 'a world) option"
    and slp w r
  assume ih: "\<And>s v y. rec s v = Some y \<Longrightarrow> \<exists>w'. isl (s 60 w')"
    and step: "(case slp 60 w of Inl e \<Rightarrow> Some (Inl e) | Inr (u, w') \<Rightarrow> rec slp w') = Some r"
  show "\<exists>w'. isl (slp 60 w')"
  proof (cases "slp 60 w")
    case (Inl e)
    then have "isl (slp 60 w)" by simp
    then show ?thesis ..
  next
    case (Inr p)
    with step have "rec slp (snd p) = Some r" by (simp split: prod.splits)
    then show ?thesis by (rule ih)
  qed
qed

lemma sleep_forever_diverges:
  assumes "\<And>w'. \<not> isl (slp 60 w')"
  shows "sleep_forever slp w = None"
  using assms sleep_forever_needs_exception [of slp w] by (cases "sleep_forever slp w") auto

text \<open>The loop does end when \<open>time.sleep\<close> raises, and then with that exception.\<close>

lemma sleep_forever_stops_on_exception:
  "slp 60 w = Inl e \<Longrightarrow> sleep_forever slp w = Some (Inl e)"
  by (simp add: sleep_forever.simps)

lemma upt_1_10: "[Suc 0..<10] = [1, 2, 3, 4, 5, 6, 7, 8, 9 :: nat]"
  by code_simp

text \<open>
  On the counting library the part before the loop makes nineteen calls (the client,
  nine times \<open>publish\<close> and \<open>add_done_callback\<close>) and prints its one line.
\<close>

lemma counting_publish_with_callbacks:
  "publish_with_callbacks counting_sdk ''p'' ''t'' \<lparr>stdout = [], outside = 0\<rparr> =
     Inr ((), \<lparr>stdout = [''Published message IDs:''], outside = 19\<rparr>)"
  by (simp add: publish_with_callbacks_def counting_sdk_def bind_def tick_def print_def
        return_def upt_1_10)

text \<open>
  Claim C9. \<open>publish_messages_with_error_handler\<close> never terminates normally, for any
  project, topic, library and world: no run returns to its caller with a value. A run
  ends only with an exception raised by a library call or by \<open>time.sleep\<close>; when the
  nine publishes and callback registrations go through and \<open>time.sleep(60)\<close> never
  raises, the function is in its \<open>while True\<close> loop forever.
\<close>

theorem error_handler_never_returns:
  "(\<forall>r. publish_messages_with_error_handler sdk project_id topic_name w \<noteq> Some (Inr r)) \<and>
   ((\<forall>w'. \<not> isl (time_sleep sdk 60 w')) \<longrightarrow>
    \<not> isl (publish_with_callbacks sdk project_id topic_name w) \<longrightarrow>
    publish_messages_with_error_handler sdk project_id topic_name w = None)"
proof (intro conjI allI impI)
  fix r
  show "publish_messages_with_error_handler sdk project_id topic_name w \<noteq> Some (Inr r)"
  proof
    assume "publish_messages_with_error_handler sdk project_id topic_name w = Some (Inr r)"
    then obtain w' where "sleep_forever (time_sleep sdk) w' = Some (Inr r)"
      by (auto simp: publish_messages_with_error_handler_def split: sum.splits)
    from sleep_forever_raises [OF this] show False by simp
  qed
next
  assume quiet: "\<forall>w'. \<not> isl (time_sleep sdk 60 w')"
    and ok: "\<not> isl (publish_with_callbacks sdk project_id topic_name w)"
  from ok obtain u w' where "publish_with_callbacks sdk project_id topic_name w = Inr (u, w')"
    by (cases "publish_with_callbacks sdk project_id topic_name w") auto
  moreover from quiet have "sleep_forever (time_sleep sdk) w' = None"
    by (intro sleep_forever_diverges) simp
  ultimately show "publish_messages_with_error_handler sdk project_id topic_name w = None"
    by (simp add: publish_messages_with_error_handler_def)
qed

theorem error_handler_never_returns_witness:
  "(\<forall>w'. \<not> isl (time_sleep counting_sdk 60 w')) \<and>
   \<not> isl (publish_with_callbacks counting_sdk ''p'' ''t'' \<lparr>stdout = [], outside = 0\<rparr>) \<and>
   publish_messages_with_error_handler counting_sdk ''p'' ''t'' \<lparr>stdout = [], outside = 0\<rparr>
     = None"
proof -
  have a: "\<forall>w'. \<not> isl (time_sleep counting_sdk 60 w')"
    by (simp add: counting_sdk_def tick_def)
  have b: "\<not> isl (publish_with_callbacks counting_sdk ''p'' ''t'' \<lparr>stdout = [], outside = 0\<rparr>)"
    by (simp add: counting_publish_with_callbacks)
  from a b error_handler_never_returns
    [of counting_sdk "''p''" "''t''" "\<lparr>stdout = [], outside = 0\<rparr>"]
  show ?thesis by blast
qed

subsection \<open>A command line without a subcommand\<close>

text \<open>
  With the subcommand \<open>list\<close> the script does call the library, under either
  interpreter: on the library whose calls all raise, the exception of the first call
  comes out.
\<close>

lemma list_subcommand_calls_library:
  "main py reject_options failing_sdk [''my-project'', ''list'']
     \<lparr>stdout = [], outside = ()\<rparr> = Some (Inl (Raised ''unavailable''))"
  by (simp add: main_def parse_args_def dispatch_def option_like_def list_topics_def
        failing_sdk_def bind_def raise_def)

text \<open>
  Claim C10, as stated: run with a project id and no subcommand, argument parsing
  succeeds and the script performs no operation. Under Python 2.7 it does not: the
  command line \<open>my-project\<close> is a usage error, the script exits with status 2 and never
  reaches the dispatch chain.
\<close>

theorem no_subcommand_python2_counterexample:
  "parse_args Python2 reject_options [''my-project''] = Inl (SystemExit 2) \<and>
   main Python2 reject_options failing_sdk [''my-project''] \<lparr>stdout = [], outside = ()\<rparr>
     = Some (Inl (SystemExit 2)) \<and>
   main Python2 reject_options failing_sdk [''my-project''] \<lparr>stdout = [], outside = ()\<rparr>
     \<noteq> Some (Inr ((), \<lparr>stdout = [], outside = ()\<rparr>))"
  by (simp add: main_def parse_args_def option_like_def)

text \<open>
  Claim C10, amended. Under either interpreter and for every command line: whenever
  argument parsing succeeds with \<open>command\<close> left at \<open>None\<close>, no branch of the dispatch
  chain is taken, so whatever the library is, the run returns normally with the world as
  it was, nothing printed and nothing called. Under Python 3, a command line of a project
  id alone (one that does not start with \<open>-\<close>) is such a command line: parsing succeeds
  with \<open>command = None\<close> and the script does nothing.
\<close>

theorem no_subcommand_does_nothing:
  "(parse_args py with_options argv = Inr args \<longrightarrow> ns_command args = None \<longrightarrow>
      main py with_options sdk argv w = Some (Inr ((), w))) \<and>
   (\<not> option_like project_id \<longrightarrow>
      parse_args Python3 with_options [project_id] =
        Inr \<lparr>ns_project_id = project_id, ns_command = None, ns_topic_name = None\<rparr> \<and>
      main Python3 with_options sdk [project_id] w = Some (Inr ((), w)))"
proof (intro conjI impI)
  assume "parse_args py with_options argv = Inr args" and "ns_command args = None"
  then show "main py with_options sdk argv w = Some (Inr ((), w))"
    by (simp add: main_def dispatch_def)
next
  assume "\<not> option_like project_id"
  then show "parse_args Python3 with_options [project_id] =
      Inr \<lparr>ns_project_id = project_id, ns_command = None, ns_topic_name = None\<rparr>"
    by (simp add: parse_args_def)
next
  assume "\<not> option_like project_id"
  then show "main Python3 with_options sdk [project_id] w = Some (Inr ((), w))"
    by (simp add: parse_args_def main_def dispatch_def)
qed

theorem no_subcommand_does_nothing_witness:
  "parse_args Python3 reject_options [''my-project''] =
     Inr \<lparr>ns_project_id = ''my-project'', ns_command = None, ns_topic_name = None\<rparr> \<and>
   ns_command \<lparr>ns_project_id = ''my-project'', ns_command = None, ns_topic_name = None\<rparr> = None \<and>
   \<not> option_like ''my-project'' \<and>
   main Python3 reject_options failing_sdk [''my-project''] \<lparr>stdout = [], outside = ()\<rparr> =
     Some (Inr ((), \<lparr>stdout = [], outside = ()\<rparr>))"
proof -
  have h: "\<not> option_like ''my-project''" by (simp add: option_like_def)
  have p: "parse_args Python3 reject_options [''my-project''] =
      Inr \<lparr>ns_project_id = ''my-project'', ns_command = None, ns_topic_name = None\<rparr>"
    by (simp add: parse_args_def option_like_def)
  from h p no_subcommand_does_nothing [of Python3 reject_options "[''my-project'']"
    "\<lparr>ns_project_id = ''my-project'', ns_command = None, ns_topic_name = None\<rparr>"
    failing_sdk "\<lparr>stdout = [], outside = ()\<rparr>" "''my-project''"]
  show ?thesis by simp
qed

end
